theory Spec2Isabelle
  imports Main "HOL-Library.Sublist" "HOL-Library.AList"
begin

section \<open>Strings\<close>


text \<open>Python's \<^verbatim>\<open>sub in s\<close> on strings: \<open>sub\<close> occurs in \<open>s\<close> as a contiguous run.\<close>

fun str_in :: "string \<Rightarrow> string \<Rightarrow> bool" where
  "str_in sub [] = (sub = [])"
| "str_in sub (c # cs) = (prefix sub (c # cs) \<or> str_in sub cs)"

section \<open>Extraction data model (contract_extractor.py)\<close>

datatype FileType = YAML | PYTHON | REGO | MARKDOWN | UNKNOWN

text \<open>
  What \<^verbatim>\<open>yaml.safe_load\<close> returns. A mapping is the list of its items in insertion order,
  with string keys (the annotation \<^verbatim>\<open>Dict[str, Any]\<close> of the source). \<open>YFloat\<close> carries the
  literal's text. \<open>YSet\<close> stands for the sets and tuples of the tags \<^verbatim>\<open>!!set\<close> and
  \<^verbatim>\<open>!!omap\<close>, \<open>YOther\<close> for timestamps and binary scalars.
\<close>

datatype yvalue =
    YNull
  | YBool bool
  | YInt int
  | YFloat string
  | YStr string
  | YList "yvalue list"
  | YDict "(string \<times> yvalue) list"
  | YSet "yvalue list"
  | YOther string

text \<open>
  \<open>default_v\<close> is the field \<^verbatim>\<open>default\<close>. Python's \<^verbatim>\<open>None\<close> is \<open>None\<close> here, so a YAML
  null stored in the field is \<open>None\<close>, as in the source.
\<close>

record Parameter =
  name :: string
  type :: "string option"
  required :: bool
  default_v :: "yvalue option"
  description :: "string option"

text \<open>The values the extractors store in \<^verbatim>\<open>metadata\<close>.\<close>

datatype mvalue = MYaml yvalue | MStr string | MStrs "string list"

record ContractBoundary =
  file_path :: string
  file_type :: FileType
  parameters :: "Parameter list"
  metadata :: "(string \<times> mvalue) list"

text \<open>
  \<open>ContractExtractionError\<close> carries its message. The other constructors are the built-in
  exceptions that the extractors do not catch.
\<close>

datatype error = ContractExtractionError string | AttributeError | TypeError | KeyError

section \<open>Structured-data extractor (yaml_extractor.py)\<close>

fun infer_type :: "yvalue \<Rightarrow> string" where
  "infer_type (YBool b) = ''boolean''"
| "infer_type (YInt i) = ''integer''"
| "infer_type (YFloat f) = ''number''"
| "infer_type (YStr s) = ''string''"
| "infer_type (YList xs) = ''array''"
| "infer_type (YDict d) = ''object''"
| "infer_type v = ''unknown''"

text \<open>\<^verbatim>\<open>value if not isinstance(value, (dict, list)) else None\<close>\<close>

fun default_of :: "yvalue \<Rightarrow> yvalue option" where
  "default_of (YDict d) = None"
| "default_of (YList xs) = None"
| "default_of YNull = None"
| "default_of v = Some v"

definition param_name :: "string \<Rightarrow> string \<Rightarrow> string" where
  "param_name pfx key = (if pfx \<noteq> [] then pfx @ key else key)"

definition yaml_param :: "string \<Rightarrow> yvalue \<Rightarrow> Parameter" where
  "yaml_param pname v =
     \<lparr>name = pname, type = Some (infer_type v), required = False,
      default_v = default_of v, description = None\<rparr>"

text \<open>
  The loop over \<^verbatim>\<open>for_provider.items()\<close>, on a mapping. Each key gives a parameter; a
  nested mapping then gives the parameters of its own keys, under the extended prefix.
\<close>

fun extract_for_provider :: "(string \<times> yvalue) list \<Rightarrow> string \<Rightarrow> Parameter list" where
  "extract_for_provider [] pfx = []"
| "extract_for_provider ((key, YDict d) # rest) pfx =
     yaml_param (param_name pfx key) (YDict d)
       # extract_for_provider d (param_name pfx key @ ''.'')
       @ extract_for_provider rest pfx"
| "extract_for_provider ((key, v) # rest) pfx =
     yaml_param (param_name pfx key) v # extract_for_provider rest pfx"

text \<open>
  The call \<^verbatim>\<open>self._extract_for_provider(data['spec']['forProvider'])\<close>: the source does not
  test the value, and \<^verbatim>\<open>.items()\<close> exists on mappings only.
\<close>

fun extract_for_provider_call :: "yvalue \<Rightarrow> error + Parameter list" where
  "extract_for_provider_call (YDict d) = Inr (extract_for_provider d [])"
| "extract_for_provider_call v = Inl AttributeError"

text \<open>\<^verbatim>\<open>key in obj\<close> and \<^verbatim>\<open>obj[key]\<close> for a string key, on any loaded value.\<close>

fun py_contains :: "yvalue \<Rightarrow> string \<Rightarrow> error + bool" where
  "py_contains (YDict d) k = Inr (k \<in> set (map fst d))"
| "py_contains (YStr s) k = Inr (str_in k s)"
| "py_contains (YList xs) k = Inr (YStr k \<in> set xs)"
| "py_contains (YSet xs) k = Inr (YStr k \<in> set xs)"
| "py_contains v k = Inl TypeError"

fun py_getitem :: "yvalue \<Rightarrow> string \<Rightarrow> error + yvalue" where
  "py_getitem (YDict d) k = (case map_of d k of Some v \<Rightarrow> Inr v | None \<Rightarrow> Inl KeyError)"
| "py_getitem v k = Inl TypeError"

fun extract_metadata_loop ::
  "yvalue \<Rightarrow> string list \<Rightarrow> (string \<times> mvalue) list \<Rightarrow> error + (string \<times> mvalue) list" where
  "extract_metadata_loop md [] result = Inr result"
| "extract_metadata_loop md (key # keys) result =
     (case py_contains md key of
        Inl e \<Rightarrow> Inl e
      | Inr False \<Rightarrow> extract_metadata_loop md keys result
      | Inr True \<Rightarrow>
          (case py_getitem md key of
             Inl e \<Rightarrow> Inl e
           | Inr v \<Rightarrow> extract_metadata_loop md keys (AList.update key (MYaml v) result)))"

definition extract_metadata :: "yvalue \<Rightarrow> error + (string \<times> mvalue) list" where
  "extract_metadata md =
     extract_metadata_loop md [''name'', ''namespace'', ''labels'', ''annotations''] []"

text \<open>
  The body of \<^verbatim>\<open>YAMLContractExtractor.extract\<close> after the file is loaded: \<open>loaded\<close> is the
  result of \<^verbatim>\<open>open\<close> and \<^verbatim>\<open>yaml.safe_load\<close>, \<open>Inl\<close> the text of the exception they raised.
\<close>

definition yaml_spec_part ::
  "(string \<times> yvalue) list \<Rightarrow> (string \<times> mvalue) list
     \<Rightarrow> error + (Parameter list \<times> (string \<times> mvalue) list)" where
  "yaml_spec_part data md =
     (case map_of data ''spec'' of
        Some (YDict spec) \<Rightarrow>
          (case (case map_of spec ''forProvider'' of
                   Some fp \<Rightarrow> extract_for_provider_call fp
                 | None \<Rightarrow> Inr []) of
             Inl e \<Rightarrow> Inl e
           | Inr params \<Rightarrow>
               Inr (params,
                    (case map_of spec ''compositeTypeRef'' of
                       Some v \<Rightarrow> AList.update ''compositeTypeRef'' (MYaml v) md
                     | None \<Rightarrow> md)))
      | _ \<Rightarrow> Inr ([], md))"

definition yaml_extract :: "string \<Rightarrow> string + yvalue \<Rightarrow> error + ContractBoundary" where
  "yaml_extract path loaded =
     (case loaded of
        Inl e \<Rightarrow> Inl (ContractExtractionError (''Failed to parse YAML: '' @ e))
      | Inr (YDict data) \<Rightarrow>
          (case (case map_of data ''metadata'' of
                   Some m \<Rightarrow> extract_metadata m
                 | None \<Rightarrow> Inr []) of
             Inl e \<Rightarrow> Inl e
           | Inr md \<Rightarrow>
               (case yaml_spec_part data md of
                  Inl e \<Rightarrow> Inl e
                | Inr (params, md') \<Rightarrow>
                    Inr \<lparr>file_path = path, file_type = YAML,
                         parameters = params, metadata = md'\<rparr>))
      | Inr v \<Rightarrow> Inl (ContractExtractionError ''YAML file must contain a dictionary''))"

text \<open>The value of \<^verbatim>\<open>spec.forProvider\<close> in a manifest, when \<^verbatim>\<open>spec\<close> is a mapping that has the key.\<close>

definition for_provider_of :: "(string \<times> yvalue) list \<Rightarrow> yvalue option" where
  "for_provider_of data =
     (case map_of data ''spec'' of
        Some (YDict spec) \<Rightarrow> map_of spec ''forProvider''
      | _ \<Rightarrow> None)"

fun mapping_keys :: "yvalue option \<Rightarrow> string list" where
  "mapping_keys (Some (YDict d)) = map fst d"
| "mapping_keys v = []"

text \<open>Example manifests: one with a key \<^verbatim>\<open>status\<close> below \<^verbatim>\<open>forProvider\<close>, and the one of the test suite.\<close>

definition status_manifest :: yvalue where
  "status_manifest =
     YDict [(''spec'', YDict [(''forProvider'',
              YDict [(''status'', YDict [(''ready'', YBool True)])])])]"

definition test_manifest :: "(string \<times> yvalue) list" where
  "test_manifest =
     [(''apiVersion'', YStr ''example.com/v1''),
      (''kind'', YStr ''WebService''),
      (''metadata'', YDict [(''name'', YStr ''test-service''), (''namespace'', YStr ''default'')]),
      (''spec'', YDict
         [(''forProvider'', YDict
             [(''region'', YStr ''us-east-1''),
              (''instanceType'', YStr ''t3.micro''),
              (''tags'', YDict [(''environment'', YStr ''production''),
                                (''team'', YStr ''platform'')])]),
          (''compositeTypeRef'', YDict [(''apiVersion'', YStr ''example.com/v1''),
                                        (''kind'', YStr ''XWebService'')])]),
      (''status'', YDict [(''ready'', YBool True)])]"

definition test_manifest_parameters :: "Parameter list" where
  "test_manifest_parameters =
     [\<lparr>name = ''region'', type = Some ''string'', required = False,
       default_v = Some (YStr ''us-east-1''), description = None\<rparr>,
      \<lparr>name = ''instanceType'', type = Some ''string'', required = False,
       default_v = Some (YStr ''t3.micro''), description = None\<rparr>,
      \<lparr>name = ''tags'', type = Some ''object'', required = False,
       default_v = None, description = None\<rparr>,
      \<lparr>name = ''tags.environment'', type = Some ''string'', required = False,
       default_v = Some (YStr ''production''), description = None\<rparr>,
      \<lparr>name = ''tags.team'', type = Some ''string'', required = False,
       default_v = Some (YStr ''platform''), description = None\<rparr>]"

definition test_manifest_boundary :: ContractBoundary where
  "test_manifest_boundary =
     \<lparr>file_path = ''test.yaml'', file_type = YAML,
      parameters = test_manifest_parameters,
      metadata = [(''name'', MYaml (YStr ''test-service'')),
                  (''namespace'', MYaml (YStr ''default'')),
                  (''compositeTypeRef'',
                     MYaml (YDict [(''apiVersion'', YStr ''example.com/v1''),
                                   (''kind'', YStr ''XWebService'')]))]\<rparr>"

text \<open>The manifest of the test suite with another \<^verbatim>\<open>status\<close> and a \<^verbatim>\<open>patches\<close> list.\<close>

definition patched_manifest :: "(string \<times> yvalue) list" where
  "patched_manifest =
     [(''spec'', YDict
         [(''forProvider'', YDict
             [(''region'', YStr ''us-east-1''),
              (''instanceType'', YStr ''t3.micro''),
              (''tags'', YDict [(''environment'', YStr ''production''),
                                (''team'', YStr ''platform'')])])]),
      (''status'', YDict [(''ready'', YBool False), (''phase'', YStr ''running'')]),
      (''patches'', YList [YDict [(''fromFieldPath'', YStr ''spec.region'')]])]"

section \<open>Source-code extractor (python_extractor.py)\<close>

text \<open>
  The syntax tree of \<^verbatim>\<open>ast.parse\<close>, as far as the extractor reads it. A function holds its
  name, \<^verbatim>\<open>args.args\<close>, the text \<^verbatim>\<open>ast.unparse\<close> gives for \<^verbatim>\<open>returns\<close>, and its body; an
  annotated assignment holds the identifier of its target when the target is an
  \<^verbatim>\<open>ast.Name\<close>, and the text of its annotation. \<open>Other\<close> is any other node that holds
  statements (\<^verbatim>\<open>If\<close>, \<^verbatim>\<open>For\<close>, \<^verbatim>\<open>Try\<close>, an exception handler, ...) or none (\<^verbatim>\<open>Pass\<close>). Expression
  nodes are left out: no statement lies below an expression.
\<close>

datatype arg = Arg (arg_name: string) (annotation: "string option")

datatype node =
    Module "node list"
  | FunctionDef string "arg list" "string option" "node list"
  | AsyncFunctionDef string "arg list" "string option" "node list"
  | ClassDef string "node list"
  | AnnAssign "string option" string
  | Other "node list"

fun iter_child_nodes :: "node \<Rightarrow> node list" where
  "iter_child_nodes (Module body) = body"
| "iter_child_nodes (FunctionDef nm args returns body) = body"
| "iter_child_nodes (AsyncFunctionDef nm args returns body) = body"
| "iter_child_nodes (ClassDef nm body) = body"
| "iter_child_nodes (AnnAssign target ann) = []"
| "iter_child_nodes (Other body) = body"

lemma size_iter_child_nodes: "size_list size (iter_child_nodes n) \<le> size n"
  by (cases n) auto



text \<open>
  \<^verbatim>\<open>ast.walk\<close> of the standard library: a queue that starts with the tree; the node at the
  front is taken off, its children are added at the back, and the node is yielded.
\<close>

function walk_loop :: "node list \<Rightarrow> node list" where
  "walk_loop [] = []"
| "walk_loop (n # todo) = n # walk_loop (todo @ iter_child_nodes n)"
  by pat_completeness auto
termination
  using size_iter_child_nodes
  by (relation "measure (size_list size)") (auto simp: le_imp_less_Suc)

definition walk :: "node \<Rightarrow> node list" where
  "walk tree = walk_loop [tree]"

definition startswith :: "string \<Rightarrow> string \<Rightarrow> bool" where
  "startswith s p = prefix p s"

definition function_param :: "string \<Rightarrow> arg \<Rightarrow> Parameter" where
  "function_param fname a =
     \<lparr>name = fname @ ''.'' @ arg_name a, type = annotation a, required = True,
      default_v = None, description = None\<rparr>"

definition extract_function_params ::
  "string \<Rightarrow> arg list \<Rightarrow> string option \<Rightarrow> Parameter list" where
  "extract_function_params fname args returns =
     map (function_param fname)
       (filter (\<lambda>a. arg_name a \<notin> set [''self'', ''cls'']) args)
     @ (case returns of
          Some r \<Rightarrow> [\<lparr>name = fname @ ''.return'', type = Some r, required = False,
                     default_v = None, description = None\<rparr>]
        | None \<Rightarrow> [])"

fun extract_class_params :: "string \<Rightarrow> node list \<Rightarrow> Parameter list" where
  "extract_class_params cname [] = []"
| "extract_class_params cname (AnnAssign (Some attr_name) attr_type # body) =
     \<lparr>name = cname @ ''.'' @ attr_name, type = Some attr_type, required = True,
      default_v = None, description = None\<rparr> # extract_class_params cname body"
| "extract_class_params cname (item # body) = extract_class_params cname body"

text \<open>What one pass of the loop over \<^verbatim>\<open>ast.walk(tree)\<close> appends to \<^verbatim>\<open>parameters\<close>.\<close>

fun node_params :: "node \<Rightarrow> Parameter list" where
  "node_params (FunctionDef nm args returns body) =
     (if \<not> startswith nm ''_'' then extract_function_params nm args returns else [])"
| "node_params (AsyncFunctionDef nm args returns body) =
     (if \<not> startswith nm ''_'' then extract_function_params nm args returns else [])"
| "node_params (ClassDef nm body) = extract_class_params nm body"
| "node_params n = []"

text \<open>\<^verbatim>\<open>metadata['classes'].append(node.name)\<close>, after the list is created when absent.\<close>

definition append_class :: "string \<Rightarrow> (string \<times> mvalue) list \<Rightarrow> (string \<times> mvalue) list" where
  "append_class nm md =
     (case map_of md ''classes'' of
        Some (MStrs cs) \<Rightarrow> AList.update ''classes'' (MStrs (cs @ [nm])) md
      | _ \<Rightarrow> AList.update ''classes'' (MStrs [nm]) md)"

fun node_metadata :: "node \<Rightarrow> (string \<times> mvalue) list \<Rightarrow> (string \<times> mvalue) list" where
  "node_metadata (ClassDef nm body) md = append_class nm md"
| "node_metadata n md = md"

fun python_loop ::
  "node list \<Rightarrow> Parameter list \<times> (string \<times> mvalue) list
     \<Rightarrow> Parameter list \<times> (string \<times> mvalue) list" where
  "python_loop [] st = st"
| "python_loop (n # ns) (params, md) =
     python_loop ns (params @ node_params n, node_metadata n md)"

text \<open>
  \<open>parsed\<close> is the result of reading the file and \<^verbatim>\<open>ast.parse\<close>, \<open>Inl\<close> the text of the
  exception raised.
\<close>

definition python_extract :: "string \<Rightarrow> string + node \<Rightarrow> error + ContractBoundary" where
  "python_extract path parsed =
     (case parsed of
        Inl e \<Rightarrow> Inl (ContractExtractionError (''Failed to parse Python file: '' @ e))
      | Inr tree \<Rightarrow>
          (case python_loop (walk tree) ([], []) of
             (params, md) \<Rightarrow>
               Inr \<lparr>file_path = path, file_type = PYTHON,
                    parameters = params, metadata = md\<rparr>))"



text \<open>Example modules: a class with a private name beside a private and a public function, and a method nested in a class before a top-level function.\<close>

definition private_class_module :: node where
  "private_class_module =
     Module [ClassDef ''_Config'' [AnnAssign (Some ''host'') ''str''],
             FunctionDef ''_helper'' [Arg ''x'' (Some ''int'')] None [Other []],
             FunctionDef ''run'' [Arg ''self'' None, Arg ''job'' (Some ''str'')] (Some ''int'') [Other []]]"


section \<open>Character classes and string helpers\<close>

definition nl :: char where
  "nl = CHR 0x0A"

text \<open>\<^verbatim>\<open>\s\<close>, \<^verbatim>\<open>str.isspace\<close> and what \<^verbatim>\<open>str.strip\<close> removes: tab, line feed, vertical tab,
  form feed, carriage return, the four separators \<^verbatim>\<open>0x1C\<close> to \<^verbatim>\<open>0x1F\<close>, the space, the
  next-line character \<^verbatim>\<open>0x85\<close> and the no-break space \<^verbatim>\<open>0xA0\<close>.\<close>

definition is_space :: "char \<Rightarrow> bool" where
  "is_space c = (c \<in> set [CHR 0x09, CHR 0x0A, CHR 0x0B, CHR 0x0C, CHR 0x0D,
                            CHR 0x1C, CHR 0x1D, CHR 0x1E, CHR 0x1F, CHR 0x20,
                            CHR 0x85, CHR 0xA0])"




definition strip :: "string \<Rightarrow> string" where
  "strip s = rev (dropWhile is_space (rev (dropWhile is_space s)))"

text \<open>\<^verbatim>\<open>s.split(sep)\<close> for a separator of one character.\<close>

fun split_on :: "char \<Rightarrow> string \<Rightarrow> string list" where
  "split_on sep [] = [[]]"
| "split_on sep (c # cs) =
     (if c = sep then [] # split_on sep cs
      else (case split_on sep cs of
              p # ps \<Rightarrow> (c # p) # ps
            | [] \<Rightarrow> [[c]]))"

text \<open>\<^verbatim>\<open>sep.join(xs)\<close>\<close>

fun join :: "string \<Rightarrow> string list \<Rightarrow> string" where
  "join sep [] = []"
| "join sep [x] = x"
| "join sep (x # xs) = x @ sep @ join sep xs"

text \<open>
  The tail \<^verbatim>\<open>\s+(.+)$\<close> (\<open>m = 1\<close>) or \<^verbatim>\<open>\s*(.+)$\<close> (\<open>m = 0\<close>) of a pattern under
  \<^verbatim>\<open>re.MULTILINE\<close>, matched at the front of \<open>s\<close>: the group and the text after the match. The
  white space is taken greedily and may run over line ends; the group is the rest of the
  line where the white space stops. When the white space runs to the end of the text, the
  matcher gives characters back until the one given back last is no line feed: that
  character alone is the group. The lazy group \<^verbatim>\<open>(.+?)$\<close> matches the same text.
\<close>

definition ws_text :: "nat \<Rightarrow> string \<Rightarrow> (string \<times> string) option" where
  "ws_text m s =
     (if length (takeWhile is_space s) < m then None
      else if dropWhile is_space s \<noteq> [] then
        Some (takeWhile (\<lambda>c. c \<noteq> nl) (dropWhile is_space s),
              dropWhile (\<lambda>c. c \<noteq> nl) (dropWhile is_space s))
      else (case dropWhile (\<lambda>c. c = nl) (rev (drop m (takeWhile is_space s))) of
              [] \<Rightarrow> None
            | c # back \<Rightarrow>
                Some ([c], takeWhile (\<lambda>c. c = nl) (rev (drop m (takeWhile is_space s))))))"

section \<open>Section extractor (markdown_extractor.py)\<close>

text \<open>\<^verbatim>\<open>^##\s+(.+?)$\<close> at a line start: the heading text and the text after the match.\<close>

fun match_h2 :: "string \<Rightarrow> (string \<times> string) option" where
  "match_h2 (a # b # r) = (if a = CHR ''#'' \<and> b = CHR ''#'' then ws_text 1 r else None)"
| "match_h2 s = None"

lemma ws_text_length: "ws_text m s = Some (g, rest) \<Longrightarrow> length rest \<le> length s"
proof -
  have a: "length (dropWhile (\<lambda>c. c \<noteq> nl) (dropWhile is_space s)) \<le> length s"
    using length_dropWhile_le [of "\<lambda>c. c \<noteq> nl" "dropWhile is_space s"]
          length_dropWhile_le [of is_space s] by linarith
  have b: "length (takeWhile (\<lambda>c. c = nl) (rev (drop m (takeWhile is_space s)))) \<le> length s"
    using length_takeWhile_le [of "\<lambda>c. c = nl" "rev (drop m (takeWhile is_space s))"]
          length_takeWhile_le [of is_space s] by simp
  assume "ws_text m s = Some (g, rest)"
  with a b show ?thesis
    by (auto simp: ws_text_def split: if_splits list.splits)
qed

lemma match_h2_length: "match_h2 s = Some (g, rest) \<Longrightarrow> length rest < length s"
  by (cases s rule: match_h2.cases) (auto split: if_splits dest: ws_text_length)

text \<open>
  \<^verbatim>\<open>re.split(r'^##\s+(.+?)$', content, flags=re.MULTILINE)\<close>: the scan goes through the text
  from left to right; \<open>bol\<close> says that the position is a line start, \<open>acc\<close> holds the text
  since the last match, reversed. A match ends the running part and adds the group.
\<close>

function re_split_h2 :: "bool \<Rightarrow> string \<Rightarrow> string \<Rightarrow> string list" where
  "re_split_h2 bol acc [] = [rev acc]"
| "re_split_h2 bol acc (c # cs) =
     (case (if bol then match_h2 (c # cs) else None) of
        Some (g, rest) \<Rightarrow> rev acc # g # re_split_h2 False [] rest
      | None \<Rightarrow> re_split_h2 (c = nl) (c # acc) cs)"
  by pat_completeness auto
termination
  by (relation "measure (\<lambda>(bol, acc, s). length s)")
     (auto split: if_splits dest: match_h2_length)

text \<open>The loop of \<^verbatim>\<open>_extract_sections\<close> over \<^verbatim>\<open>parts[1], parts[2]\<close>, \<^verbatim>\<open>parts[3], parts[4]\<close>, ...\<close>

fun sections_loop :: "string list \<Rightarrow> (string \<times> string) list \<Rightarrow> (string \<times> string) list" where
  "sections_loop (section_name # section_content # parts) sections =
     sections_loop parts (AList.update (strip section_name) (strip section_content) sections)"
| "sections_loop parts sections = sections"

definition extract_sections :: "string \<Rightarrow> (string \<times> string) list" where
  "extract_sections content = sections_loop (drop 1 (re_split_h2 True [] content)) []"

text \<open>\<^verbatim>\<open>re.search(r'^#\s+(.+)$', content, re.MULTILINE)\<close>: the group of the first match.\<close>

fun search_title :: "bool \<Rightarrow> string \<Rightarrow> string option" where
  "search_title bol [] = None"
| "search_title bol (c # cs) =
     (case (if bol \<and> c = CHR ''#'' then ws_text 1 cs else None) of
        Some (g, rest) \<Rightarrow> Some g
      | None \<Rightarrow> search_title (c = nl) cs)"

definition section_param :: "string \<times> string \<Rightarrow> Parameter" where
  "section_param sec =
     \<lparr>name = fst sec, type = Some ''section'', required = False, default_v = None,
      description = (if snd sec \<noteq> [] then Some (take 200 (snd sec)) else None)\<rparr>"

definition markdown_extract :: "string \<Rightarrow> string + string \<Rightarrow> error + ContractBoundary" where
  "markdown_extract path rd =
     (case rd of
        Inl e \<Rightarrow> Inl (ContractExtractionError (''Failed to read Markdown file: '' @ e))
      | Inr content \<Rightarrow>
          Inr \<lparr>file_path = path, file_type = MARKDOWN,
               parameters = map section_param (extract_sections content),
               metadata =
                 AList.update ''sections'' (MStrs (map fst (extract_sections content)))
                   (case search_title True content of
                      Some t \<Rightarrow> [(''title'', MStr (strip t))]
                    | None \<Rightarrow> [])\<rparr>)"





definition small_runbook :: string where
  "small_runbook = join [nl]
     [''# Outage'', ''Background.'', ''## Symptoms'', ''Slow.'', ''## Resolution'', ''Restart.'']"

section \<open>External operations\<close>

text \<open>
  What a call reads from outside: the path operations of \<^verbatim>\<open>pathlib\<close>, the file contents
  (\<open>Inl\<close> the text of the exception that \<^verbatim>\<open>open\<close> or \<^verbatim>\<open>read\<close> raised), the parsers
  \<^verbatim>\<open>yaml.safe_load\<close> and \<^verbatim>\<open>ast.parse\<close>, and the three regular-expression scans of the policy
  extractor: the group of the package pattern, the two groups of each match of the rule
  pattern in order, and the elements of the set of input references in the order the
  set yields them.
\<close>

record world =
  path_exists :: "string \<Rightarrow> bool"
  path_suffix :: "string \<Rightarrow> string"
  path_stem :: "string \<Rightarrow> string"
  read_text :: "string \<Rightarrow> string + string"
  yaml_safe_load :: "string \<Rightarrow> string + yvalue"
  ast_parse :: "string \<Rightarrow> string + node"
  re_search_package :: "string \<Rightarrow> string option"
  re_finditer_rule :: "string \<Rightarrow> (string \<times> string option) list"
  re_findall_input :: "string \<Rightarrow> string list"

section \<open>Policy-rule extractor (rego_extractor.py)\<close>

definition rule_params :: "string \<times> string option \<Rightarrow> Parameter list" where
  "rule_params m =
     (if fst m \<in> set [''package'', ''import'', ''default''] then []
      else \<lparr>name = fst m, type = Some ''rule'', required = False,
            default_v = None, description = None\<rparr>
           # (case snd m of
                Some ps \<Rightarrow>
                  (if ps \<noteq> [] then
                     map (\<lambda>pn. \<lparr>name = fst m @ ''.'' @ strip pn, type = Some ''input'',
                                 required = True, default_v = None, description = None\<rparr>)
                       (split_on (CHR '','') ps)
                   else [])
              | None \<Rightarrow> []))"

definition input_param :: "string \<Rightarrow> Parameter" where
  "input_param input_ref =
     \<lparr>name = ''input.'' @ input_ref, type = Some ''input'', required = False,
      default_v = None, description = None\<rparr>"

definition rego_parameters :: "world \<Rightarrow> string \<Rightarrow> Parameter list" where
  "rego_parameters w content =
     concat (map rule_params (re_finditer_rule w content))
     @ map input_param (re_findall_input w content)"

definition rego_extract :: "world \<Rightarrow> string \<Rightarrow> error + ContractBoundary" where
  "rego_extract w path =
     (case read_text w path of
        Inl e \<Rightarrow> Inl (ContractExtractionError (''Failed to read Rego file: '' @ e))
      | Inr content \<Rightarrow>
          Inr \<lparr>file_path = path, file_type = REGO,
               parameters = rego_parameters w content,
               metadata =
                 AList.update ''rules''
                   (MStrs (map name (filter (\<lambda>p. type p = Some ''rule'')
                                      (rego_parameters w content))))
                   (case re_search_package w content of
                      Some pk \<Rightarrow> [(''package'', MStr pk)]
                    | None \<Rightarrow> [])\<rparr>)"

section \<open>Dispatcher (contract_extractor.py)\<close>

text \<open>\<^verbatim>\<open>str.lower\<close>: the letters \<^verbatim>\<open>A\<close> to \<^verbatim>\<open>Z\<close> and the capital letters from \<^verbatim>\<open>0xC0\<close> to
  \<^verbatim>\<open>0xDE\<close> have their small letter 32 places further; every other character stays.\<close>

definition upper_letters :: string where
  "upper_letters = ''ABCDEFGHIJKLMNOPQRSTUVWXYZ'' @
     [CHR 0xC0, CHR 0xC1, CHR 0xC2, CHR 0xC3, CHR 0xC4, CHR 0xC5, CHR 0xC6, CHR 0xC7,
      CHR 0xC8, CHR 0xC9, CHR 0xCA, CHR 0xCB, CHR 0xCC, CHR 0xCD, CHR 0xCE, CHR 0xCF,
      CHR 0xD0, CHR 0xD1, CHR 0xD2, CHR 0xD3, CHR 0xD4, CHR 0xD5, CHR 0xD6, CHR 0xD8,
      CHR 0xD9, CHR 0xDA, CHR 0xDB, CHR 0xDC, CHR 0xDD, CHR 0xDE]"

definition lower_letters :: string where
  "lower_letters = ''abcdefghijklmnopqrstuvwxyz'' @
     [CHR 0xE0, CHR 0xE1, CHR 0xE2, CHR 0xE3, CHR 0xE4, CHR 0xE5, CHR 0xE6, CHR 0xE7,
      CHR 0xE8, CHR 0xE9, CHR 0xEA, CHR 0xEB, CHR 0xEC, CHR 0xED, CHR 0xEE, CHR 0xEF,
      CHR 0xF0, CHR 0xF1, CHR 0xF2, CHR 0xF3, CHR 0xF4, CHR 0xF5, CHR 0xF6, CHR 0xF8,
      CHR 0xF9, CHR 0xFA, CHR 0xFB, CHR 0xFC, CHR 0xFD, CHR 0xFE]"

definition lower_char :: "char \<Rightarrow> char" where
  "lower_char c = (case map_of (zip upper_letters lower_letters) c of Some l \<Rightarrow> l | None \<Rightarrow> c)"

definition lower :: "string \<Rightarrow> string" where
  "lower s = map lower_char s"

definition detect_file_type :: "world \<Rightarrow> string \<Rightarrow> FileType" where
  "detect_file_type w path =
     (if lower (path_suffix w path) \<in> set [''.yaml'', ''.yml''] then YAML
      else if lower (path_suffix w path) = ''.py'' then PYTHON
      else if lower (path_suffix w path) = ''.rego'' then REGO
      else if lower (path_suffix w path) \<in> set [''.md'', ''.markdown''] then MARKDOWN
      else UNKNOWN)"

text \<open>The file is opened and loaded, or parsed, inside one \<^verbatim>\<open>try\<close> block of the extractor.\<close>

definition yaml_load :: "world \<Rightarrow> string \<Rightarrow> string + yvalue" where
  "yaml_load w path =
     (case read_text w path of Inl e \<Rightarrow> Inl e | Inr text \<Rightarrow> yaml_safe_load w text)"

definition python_parse :: "world \<Rightarrow> string \<Rightarrow> string + node" where
  "python_parse w path =
     (case read_text w path of Inl e \<Rightarrow> Inl e | Inr text \<Rightarrow> ast_parse w text)"

definition extract_contract_boundary :: "world \<Rightarrow> string \<Rightarrow> error + ContractBoundary" where
  "extract_contract_boundary w path =
     (if \<not> path_exists w path then
        Inl (ContractExtractionError (''File not found: '' @ path))
      else
        (case detect_file_type w path of
           UNKNOWN \<Rightarrow> Inl (ContractExtractionError (''Unsupported file type: '' @ path))
         | YAML \<Rightarrow> yaml_extract path (yaml_load w path)
         | PYTHON \<Rightarrow> python_extract path (python_parse w path)
         | REGO \<Rightarrow> rego_extract w path
         | MARKDOWN \<Rightarrow> markdown_extract path (read_text w path)))"

text \<open>A world with one Markdown file, \<^verbatim>\<open>docs/Runbook.MD\<close>; every path has its suffix.\<close>

definition runbook_world :: world where
  "runbook_world =
     \<lparr>path_exists = (\<lambda>p. p = ''docs/Runbook.MD''),
      path_suffix = (\<lambda>p. ''.MD''),
      path_stem = (\<lambda>p. ''Runbook''),
      read_text = (\<lambda>p. Inr small_runbook),
      yaml_safe_load = (\<lambda>t. Inl ''not used''),
      ast_parse = (\<lambda>t. Inl ''not used''),
      re_search_package = (\<lambda>t. None),
      re_finditer_rule = (\<lambda>t. []),
      re_findall_input = (\<lambda>t. [])\<rparr>"

definition runbook_world_boundary :: ContractBoundary where
  "runbook_world_boundary =
     \<lparr>file_path = ''docs/Runbook.MD'', file_type = MARKDOWN,
      parameters = [\<lparr>name = ''Symptoms'', type = Some ''section'', required = False,
                     default_v = None, description = Some ''Slow.''\<rparr>,
                    \<lparr>name = ''Resolution'', type = Some ''section'', required = False,
                     default_v = None, description = Some ''Restart.''\<rparr>],
      metadata = [(''title'', MStr ''Outage''),
                  (''sections'', MStrs [''Symptoms'', ''Resolution''])]\<rparr>"

section \<open>Documentation validator (mdx_validator.py)\<close>





subsection \<open>File name\<close>









subsection \<open>Frontmatter\<close>







subsection \<open>Components and tag balance\<close>


















subsection \<open>Entry point\<close>


text \<open>Example documents, after the test suite.\<close>

definition frontmatter_lines :: "string list" where
  "frontmatter_lines =
     [''---'', ''title: Test'', ''category: runbook'', ''description: Test runbook'', ''---'', '''']"

definition steps_valid :: string where
  \<open>steps_valid = join [nl]
     (frontmatter_lines @
      [''<Steps>'', ''  <Step title="First step">'', ''    Do something'', ''  </Step>'',
       ''</Steps>'', ''''])\<close>









section \<open>Properties of the structured-data extractor\<close>

lemma efp_member:
  "(k, v) \<in> set d \<Longrightarrow> yaml_param (param_name pfx k) v \<in> set (extract_for_provider d pfx)"
  by (induction d pfx rule: extract_for_provider.induct) auto

lemma efp_nested:
  "(k, YDict c) \<in> set d \<Longrightarrow>
     set (extract_for_provider c (param_name pfx k @ ''.'')) \<subseteq> set (extract_for_provider d pfx)"
  by (induction d pfx rule: extract_for_provider.induct) auto

lemma efp_names:
  "p \<in> set (extract_for_provider d pfx) \<Longrightarrow>
     \<exists>k \<in> set (map fst d). name p = param_name pfx k \<or> prefix (param_name pfx k @ ''.'') (name p)"
proof (induction d pfx arbitrary: p rule: extract_for_provider.induct)
  case (1 pfx)
  then show ?case by simp
next
  case (2 key d rest pfx)
  from "2.prems" consider
      "p = yaml_param (param_name pfx key) (YDict d)"
    | "p \<in> set (extract_for_provider d (param_name pfx key @ ''.''))"
    | "p \<in> set (extract_for_provider rest pfx)"
    by auto
  then show ?case
  proof cases
    case 1
    then show ?thesis by (simp add: yaml_param_def)
  next
    case 2
    from "2.IH"(1) [OF this] obtain k where
      "name p = param_name (param_name pfx key @ ''.'') k \<or>
       prefix (param_name (param_name pfx key @ ''.'') k @ ''.'') (name p)"
      by blast
    then have "prefix (param_name pfx key @ ''.'') (name p)"
      by (auto simp: param_name_def prefix_def)
    then show ?thesis by auto
  next
    case 3
    from "2.IH"(2) [OF this] show ?thesis by auto
  qed
qed (auto simp: yaml_param_def)

lemma dot_prefix_status:
  assumes "prefix (k @ ''.'') ''status.''"
  shows "k = ''status''"
  using assms by (auto simp: prefix_Cons append_eq_Cons_conv)

lemma status_prefix_cases:
  assumes "prefix ''status.'' n" and "n = k \<or> prefix (k @ ''.'') n"
  shows "k = ''status'' \<or> prefix ''status.'' k"
proof -
  from assms(2) show ?thesis
  proof
    assume "n = k" with assms(1) show ?thesis by simp
  next
    assume "prefix (k @ ''.'') n"
    with assms(1) have "prefix (k @ ''.'') ''status.'' \<or> prefix ''status.'' (k @ ''.'')"
      using prefix_same_cases by blast
    then show ?thesis
    proof
      assume "prefix (k @ ''.'') ''status.''"
      then show ?thesis using dot_prefix_status by blast
    next
      assume "prefix ''status.'' (k @ ''.'')"
      then have "''status.'' = k @ ''.'' \<or> prefix ''status.'' k"
        by (metis prefix_snoc)
      then show ?thesis by auto
    qed
  qed
qed

lemma efp_no_status:
  assumes "\<forall>k \<in> set (map fst d). k \<noteq> ''status'' \<and> \<not> prefix ''status.'' k"
    and "p \<in> set (extract_for_provider d [])"
  shows "\<not> prefix ''status.'' (name p)"
proof
  assume pre: "prefix ''status.'' (name p)"
  from efp_names [OF assms(2)] obtain k where k: "k \<in> set (map fst d)"
    and "name p = k \<or> prefix (k @ ''.'') (name p)"
    by (auto simp: param_name_def)
  with pre have "k = ''status'' \<or> prefix ''status.'' k"
    using status_prefix_cases by blast
  with assms(1) k show False by blast
qed

lemma yaml_extract_parameters:
  assumes "yaml_extract path (Inr (YDict data)) = Inr b"
  shows "(case for_provider_of data of
            Some fp \<Rightarrow> extract_for_provider_call fp
          | None \<Rightarrow> Inr []) = Inr (parameters b)"
  using assms
  by (auto simp: yaml_extract_def yaml_spec_part_def for_provider_of_def
           split: sum.splits option.splits yvalue.splits)

text \<open>
  Claim C1, as the code has it. The extractor reads parameters from \<^verbatim>\<open>spec.forProvider\<close>
  alone and has no filter on names. So for a manifest that extracts successfully: when no
  key of the \<^verbatim>\<open>forProvider\<close> mapping is \<^verbatim>\<open>status\<close> or starts with \<^verbatim>\<open>status.\<close>, no parameter
  name starts with \<^verbatim>\<open>status.\<close>; and any other manifest with the same \<^verbatim>\<open>spec.forProvider\<close>
  yields the same parameters, whatever its \<^verbatim>\<open>status\<close>, \<^verbatim>\<open>patches\<close> or other entries hold.
\<close>

theorem yaml_parameters_from_for_provider:
  assumes "yaml_extract path (Inr (YDict data)) = Inr b"
  shows "((\<forall>k \<in> set (mapping_keys (for_provider_of data)).
             k \<noteq> ''status'' \<and> \<not> prefix ''status.'' k)
          \<longrightarrow> (\<forall>p \<in> set (parameters b). \<not> prefix ''status.'' (name p)))
       \<and> (\<forall>path' data' b'.
             yaml_extract path' (Inr (YDict data')) = Inr b'
             \<and> for_provider_of data' = for_provider_of data
             \<longrightarrow> parameters b' = parameters b)"
proof (intro conjI impI allI ballI)
  fix p
  assume keys: "\<forall>k \<in> set (mapping_keys (for_provider_of data)).
                  k \<noteq> ''status'' \<and> \<not> prefix ''status.'' k"
    and p: "p \<in> set (parameters b)"
  note eq = yaml_extract_parameters [OF assms]
  show "\<not> prefix ''status.'' (name p)"
  proof (cases "for_provider_of data")
    case None
    with eq p show ?thesis by simp
  next
    case (Some fp)
    with eq obtain d where fp: "fp = YDict d" and ps: "parameters b = extract_for_provider d []"
      by (cases fp) auto
    from keys Some fp have "\<forall>k \<in> set (map fst d). k \<noteq> ''status'' \<and> \<not> prefix ''status.'' k"
      by simp
    then show ?thesis using efp_no_status p ps by metis
  qed
next
  fix path' data' b'
  assume "yaml_extract path' (Inr (YDict data')) = Inr b'
            \<and> for_provider_of data' = for_provider_of data"
  then show "parameters b' = parameters b"
    using yaml_extract_parameters [OF assms] yaml_extract_parameters [of path' data' b']
    by simp
qed

text \<open>
  The claim as worded fails: a key \<^verbatim>\<open>status\<close> below \<^verbatim>\<open>forProvider\<close> that holds a mapping
  gives a parameter named \<^verbatim>\<open>status.ready\<close>.
\<close>

theorem status_name_counterexample:
  "yaml_extract ''m.yaml'' (Inr status_manifest) =
     Inr \<lparr>file_path = ''m.yaml'', file_type = YAML,
          parameters = [yaml_param ''status'' (YDict [(''ready'', YBool True)]),
                        yaml_param ''status.ready'' (YBool True)],
          metadata = []\<rparr>
   \<and> name (yaml_param ''status.ready'' (YBool True)) = ''status.ready''
   \<and> prefix ''status.'' ''status.ready''"
  by (simp add: status_manifest_def yaml_extract_def yaml_spec_part_def param_name_def
        yaml_param_def)

lemma test_manifest_extract:
  "yaml_extract ''test.yaml'' (Inr (YDict test_manifest)) = Inr test_manifest_boundary"
  by (simp add: test_manifest_def test_manifest_parameters_def test_manifest_boundary_def
        yaml_extract_def yaml_spec_part_def extract_metadata_def param_name_def yaml_param_def)

lemma test_manifest_for_provider:
  "for_provider_of test_manifest =
     Some (YDict [(''region'', YStr ''us-east-1''),
              (''instanceType'', YStr ''t3.micro''),
              (''tags'', YDict [(''environment'', YStr ''production''),
                                (''team'', YStr ''platform'')])])"
  by (simp add: test_manifest_def for_provider_of_def)

lemma patched_manifest_extract:
  "yaml_extract ''patched.yaml'' (Inr (YDict patched_manifest)) =
     Inr \<lparr>file_path = ''patched.yaml'', file_type = YAML,
          parameters = test_manifest_parameters, metadata = []\<rparr>"
  by (simp add: patched_manifest_def test_manifest_parameters_def
        yaml_extract_def yaml_spec_part_def param_name_def yaml_param_def)

theorem yaml_parameters_from_for_provider_witness:
  "yaml_extract ''test.yaml'' (Inr (YDict test_manifest)) = Inr test_manifest_boundary
   \<and> list_all (\<lambda>k. k \<noteq> ''status'' \<and> \<not> prefix ''status.'' k)
        (mapping_keys (for_provider_of test_manifest))
   \<and> list_all (\<lambda>p. \<not> prefix ''status.'' (name p)) (parameters test_manifest_boundary)
   \<and> length (parameters test_manifest_boundary) = 5
   \<and> for_provider_of patched_manifest = for_provider_of test_manifest
   \<and> map_sum id parameters (yaml_extract ''patched.yaml'' (Inr (YDict patched_manifest)))
       = Inr (parameters test_manifest_boundary)"
proof -
  note inst = yaml_parameters_from_for_provider [OF test_manifest_extract]
  have keys: "\<forall>k \<in> set (mapping_keys (for_provider_of test_manifest)).
                k \<noteq> ''status'' \<and> \<not> prefix ''status.'' k"
    by (simp add: test_manifest_for_provider)
  with inst have names: "\<forall>p \<in> set (parameters test_manifest_boundary).
                          \<not> prefix ''status.'' (name p)"
    by blast
  have same: "for_provider_of patched_manifest = for_provider_of test_manifest"
    unfolding test_manifest_for_provider
    by (simp add: patched_manifest_def for_provider_of_def)
  with inst patched_manifest_extract
  have "parameters \<lparr>file_path = ''patched.yaml'', file_type = YAML,
          parameters = test_manifest_parameters, metadata = []\<rparr>
        = parameters test_manifest_boundary"
    by blast
  with keys names same show ?thesis
    by (simp add: test_manifest_extract patched_manifest_extract list_all_iff
          test_manifest_boundary_def test_manifest_parameters_def)
qed

text \<open>
  Claim C5 at a manifest whose \<^verbatim>\<open>spec.forProvider\<close> is a string: the extractor calls
  \<^verbatim>\<open>.items()\<close> on it, and the \<^verbatim>\<open>AttributeError\<close> leaves \<^verbatim>\<open>extract\<close>; neither a
  \<^verbatim>\<open>ContractBoundary\<close> nor a \<^verbatim>\<open>ContractExtractionError\<close> results.
\<close>

theorem for_provider_not_mapping_raises:
  "yaml_extract ''m.yaml''
     (Inr (YDict [(''spec'', YDict [(''forProvider'', YStr ''us-east-1'')])]))
   = Inl AttributeError"
  by (simp add: yaml_extract_def yaml_spec_part_def)

text \<open>
  Claim C8: a manifest that extracts successfully and whose \<^verbatim>\<open>spec.forProvider\<close> holds
  \<^verbatim>\<open>tags\<close> with \<^verbatim>\<open>environment: production\<close> and \<^verbatim>\<open>team: platform\<close> yields the parameters
  \<^verbatim>\<open>tags\<close> (type object, no default), \<^verbatim>\<open>tags.environment\<close> (type string, default
  production) and \<^verbatim>\<open>tags.team\<close> (type string, default platform), none of them required.
\<close>

theorem tags_scenario:
  assumes "yaml_extract path (Inr (YDict data)) = Inr b"
    and "for_provider_of data = Some (YDict fp)"
    and "(''tags'', YDict tags) \<in> set fp"
    and "(''environment'', YStr ''production'') \<in> set tags"
    and "(''team'', YStr ''platform'') \<in> set tags"
  shows "\<lparr>name = ''tags'', type = Some ''object'', required = False,
          default_v = None, description = None\<rparr> \<in> set (parameters b)
       \<and> \<lparr>name = ''tags.environment'', type = Some ''string'', required = False,
          default_v = Some (YStr ''production''), description = None\<rparr> \<in> set (parameters b)
       \<and> \<lparr>name = ''tags.team'', type = Some ''string'', required = False,
          default_v = Some (YStr ''platform''), description = None\<rparr> \<in> set (parameters b)"
proof -
  from yaml_extract_parameters [OF assms(1)] assms(2)
  have ps: "parameters b = extract_for_provider fp []" by simp
  have sub: "set (extract_for_provider tags ''tags.'') \<subseteq> set (parameters b)"
    using efp_nested [OF assms(3), of "[]"] by (simp add: ps param_name_def)
  have "yaml_param ''tags'' (YDict tags) \<in> set (parameters b)"
    using efp_member [OF assms(3), of "[]"] by (simp add: ps param_name_def)
  moreover have "yaml_param ''tags.environment'' (YStr ''production'') \<in> set (parameters b)"
    using efp_member [OF assms(4), of "''tags.''"] sub by (auto simp: param_name_def)
  moreover have "yaml_param ''tags.team'' (YStr ''platform'') \<in> set (parameters b)"
    using efp_member [OF assms(5), of "''tags.''"] sub by (auto simp: param_name_def)
  ultimately show ?thesis by (simp add: yaml_param_def)
qed

theorem tags_scenario_witness:
  "yaml_extract ''test.yaml'' (Inr (YDict test_manifest)) = Inr test_manifest_boundary
   \<and> map (\<lambda>p. (name p, type p, required p, default_v p)) (parameters test_manifest_boundary) =
       [(''region'', Some ''string'', False, Some (YStr ''us-east-1'')),
        (''instanceType'', Some ''string'', False, Some (YStr ''t3.micro'')),
        (''tags'', Some ''object'', False, None),
        (''tags.environment'', Some ''string'', False, Some (YStr ''production'')),
        (''tags.team'', Some ''string'', False, Some (YStr ''platform''))]"
proof -
  have "(''tags'', YDict [(''environment'', YStr ''production''), (''team'', YStr ''platform'')])
          \<in> set [(''region'', YStr ''us-east-1''), (''instanceType'', YStr ''t3.micro''),
                  (''tags'', YDict [(''environment'', YStr ''production''),
                                    (''team'', YStr ''platform'')])]"
    by simp
  from tags_scenario [OF test_manifest_extract test_manifest_for_provider this]
  show ?thesis
    by (simp add: test_manifest_extract test_manifest_boundary_def test_manifest_parameters_def)
qed

section \<open>Properties of the source-code extractor\<close>



lemma python_loop_params:
  "fst (python_loop ns (params, md)) = params @ concat (map node_params ns)"
  by (induction ns arbitrary: params md) auto

lemma python_extract_parameters:
  "python_extract path (Inr tree) = Inr b \<Longrightarrow>
     parameters b = concat (map node_params (walk tree))"
  using python_loop_params [of "walk tree" "[]" "[]"]
  by (auto simp: python_extract_def split: prod.splits)


lemma function_param_name:
  "p \<in> set (extract_function_params fname args returns) \<Longrightarrow> prefix (fname @ ''.'') (name p)"
  by (auto simp: extract_function_params_def function_param_def split: option.splits)

lemma class_param_name:
  "p \<in> set (extract_class_params cname body) \<Longrightarrow> prefix (cname @ ''.'') (name p)"
  by (induction cname body rule: extract_class_params.induct) auto

lemma underscore_segment:
  assumes "prefix (seg @ ''.'') n" and "startswith n ''_''"
  shows "startswith seg ''_''"
  using assms by (cases seg) (auto simp: startswith_def prefix_def)

lemma node_params_underscore:
  assumes "p \<in> set (node_params n)" and "startswith (name p) ''_''"
  shows "\<exists>cname body. n = ClassDef cname body \<and> startswith cname ''_''
           \<and> p \<in> set (extract_class_params cname body)"
proof (cases n)
  case (FunctionDef nm args returns body)
  with assms(1) have "\<not> startswith nm ''_''" and "prefix (nm @ ''.'') (name p)"
    by (auto split: if_splits dest: function_param_name)
  with assms(2) show ?thesis using underscore_segment by blast
next
  case (AsyncFunctionDef nm args returns body)
  with assms(1) have "\<not> startswith nm ''_''" and "prefix (nm @ ''.'') (name p)"
    by (auto split: if_splits dest: function_param_name)
  with assms(2) show ?thesis using underscore_segment by blast
next
  case (ClassDef nm body)
  with assms show ?thesis
    using class_param_name [of p nm body] underscore_segment [of nm "name p"] by simp
qed (use assms in auto)

text \<open>
  Claim C2, as the code has it. Functions whose name starts with an underscore are
  skipped; class declarations are not filtered. So in a module that extracts
  successfully, a parameter name starts with an underscore only when the parameter is a
  member of a visited class whose name starts with an underscore; the segment of a
  parameter that comes from a function never does.
\<close>

theorem underscore_names_from_classes_only:
  assumes "python_extract path (Inr tree) = Inr b"
    and "p \<in> set (parameters b)"
    and "startswith (name p) ''_''"
  shows "\<exists>cname body. ClassDef cname body \<in> set (walk tree) \<and> startswith cname ''_''
           \<and> p \<in> set (extract_class_params cname body)"
proof -
  from python_extract_parameters [OF assms(1)] assms(2)
  obtain n where "n \<in> set (walk tree)" and "p \<in> set (node_params n)"
    by auto
  with node_params_underscore [OF _ assms(3)] show ?thesis by blast
qed



lemma python_extract_total:
  "python_extract path (Inr tree) =
     Inr \<lparr>file_path = path, file_type = PYTHON,
          parameters = concat (map node_params (walk tree)),
          metadata = snd (python_loop (walk tree) ([], []))\<rparr>"
  using python_loop_params [of "walk tree" "[]" "[]"]
  by (auto simp: python_extract_def split: prod.splits)




text \<open>The claim as worded fails at a class with a private name.\<close>

theorem private_class_counterexample:
  "map_sum id (map name \<circ> parameters) (python_extract ''t.py'' (Inr private_class_module))
     = Inr [''_Config.host'', ''run.job'', ''run.return'']
   \<and> startswith ''_Config.host'' ''_''"
  by (simp add: python_extract_total private_class_module_def walk_def
       extract_function_params_def function_param_def startswith_def)

theorem underscore_names_from_classes_only_witness:
  "python_extract ''t.py'' (Inr private_class_module) =
     Inr \<lparr>file_path = ''t.py'', file_type = PYTHON,
          parameters = concat (map node_params (walk private_class_module)),
          metadata = snd (python_loop (walk private_class_module) ([], []))\<rparr>
   \<and> (\<exists>cname body. ClassDef cname body \<in> set (walk private_class_module)
         \<and> startswith cname ''_''
         \<and> \<lparr>name = ''_Config.host'', type = Some ''str'', required = True,
             default_v = None, description = None\<rparr> \<in> set (extract_class_params cname body))"
proof -
  have "\<lparr>name = ''_Config.host'', type = Some ''str'', required = True,
          default_v = None, description = None\<rparr>
        \<in> set (parameters \<lparr>file_path = ''t.py'', file_type = PYTHON,
          parameters = concat (map node_params (walk private_class_module)),
          metadata = snd (python_loop (walk private_class_module) ([], []))\<rparr>)"
    by (simp add: private_class_module_def walk_def)
  from underscore_names_from_classes_only [OF python_extract_total this]
  show ?thesis
    by (simp add: python_extract_total startswith_def)
qed

section \<open>Properties of the section extractor\<close>
















lemma small_runbook_split:
  "re_split_h2 True [] small_runbook =
     [''# Outage'' @ [nl] @ ''Background.'' @ [nl], ''Symptoms'', [nl] @ ''Slow.'' @ [nl],
      ''Resolution'', [nl] @ ''Restart.'']"
  by (simp add: small_runbook_def nl_def ws_text_def is_space_def)




section \<open>Properties of the dispatcher\<close>

lemma yaml_extract_fields:
  "yaml_extract path loaded = Inr b \<Longrightarrow> file_path b = path \<and> file_type b = YAML"
  by (auto simp: yaml_extract_def split: sum.splits yvalue.splits prod.splits)

lemma python_extract_fields:
  "python_extract path parsed = Inr b \<Longrightarrow> file_path b = path \<and> file_type b = PYTHON"
  by (auto simp: python_extract_def split: sum.splits prod.splits)

lemma rego_extract_fields:
  "rego_extract w path = Inr b \<Longrightarrow> file_path b = path \<and> file_type b = REGO"
  by (auto simp: rego_extract_def split: sum.splits)

lemma markdown_extract_fields:
  "markdown_extract path rd = Inr b \<Longrightarrow> file_path b = path \<and> file_type b = MARKDOWN"
  by (auto simp: markdown_extract_def split: sum.splits)

text \<open>
  Claim C9: when \<^verbatim>\<open>extract_contract_boundary\<close> returns a boundary, its \<^verbatim>\<open>file_path\<close> is the
  path passed in, and its \<^verbatim>\<open>file_type\<close> is the type that \<^verbatim>\<open>_detect_file_type\<close> gives for the
  suffix of the path, which is not \<^verbatim>\<open>UNKNOWN\<close>.
\<close>

theorem boundary_path_and_type:
  assumes "extract_contract_boundary w path = Inr b"
  shows "file_path b = path \<and> file_type b = detect_file_type w path \<and> file_type b \<noteq> UNKNOWN"
proof (cases "detect_file_type w path")
  case YAML
  with assms show ?thesis
    by (auto simp: extract_contract_boundary_def split: if_splits dest: yaml_extract_fields)
next
  case PYTHON
  with assms show ?thesis
    by (auto simp: extract_contract_boundary_def split: if_splits dest: python_extract_fields)
next
  case REGO
  with assms show ?thesis
    by (auto simp: extract_contract_boundary_def split: if_splits dest: rego_extract_fields)
next
  case MARKDOWN
  with assms show ?thesis
    by (auto simp: extract_contract_boundary_def split: if_splits dest: markdown_extract_fields)
next
  case UNKNOWN
  with assms show ?thesis
    by (auto simp: extract_contract_boundary_def split: if_splits)
qed

lemma runbook_world_type: "detect_file_type runbook_world ''docs/Runbook.MD'' = MARKDOWN"
  by (simp add: detect_file_type_def runbook_world_def lower_def lower_char_def
        upper_letters_def lower_letters_def)

lemma runbook_world_extract:
  "extract_contract_boundary runbook_world ''docs/Runbook.MD'' =
     markdown_extract ''docs/Runbook.MD'' (Inr small_runbook)"
  by (simp add: extract_contract_boundary_def runbook_world_type) (simp add: runbook_world_def)

lemma runbook_world_result:
  "extract_contract_boundary runbook_world ''docs/Runbook.MD'' = Inr runbook_world_boundary"
proof -
  have "search_title True small_runbook = Some ''Outage''"
    by (simp add: small_runbook_def nl_def ws_text_def is_space_def)
  then show ?thesis
    by (simp add: runbook_world_extract runbook_world_boundary_def markdown_extract_def
          extract_sections_def small_runbook_split strip_def is_space_def nl_def
          section_param_def)
qed

theorem boundary_path_and_type_witness:
  "extract_contract_boundary runbook_world ''docs/Runbook.MD'' = Inr runbook_world_boundary
   \<and> file_path runbook_world_boundary = ''docs/Runbook.MD''
   \<and> file_type runbook_world_boundary = MARKDOWN
   \<and> detect_file_type runbook_world ''docs/Runbook.MD'' = MARKDOWN"
  using boundary_path_and_type [OF runbook_world_result]
  by (simp add: runbook_world_result runbook_world_type runbook_world_boundary_def)

section \<open>Properties of the documentation validator\<close>


















section \<open>Validity and the whitelist\<close>






















end
